theory Spec2Isabelle
  imports Main "HOL-Library.Word"
begin

unbundle bit_operations_syntax

section \<open>Octets, errors and outcomes\<close>

type_synonym byte = "8 word"

text \<open>
  The error values of the package. The declarations (\<open>badQosError\<close>, \<open>badMsgTypeError\<close>,
  \<open>badWillQosError\<close>, \<open>badReturnCodeError\<close>, ...) are not in \<open>messages.go\<close>; the
  constructors follow the error kinds named in section 7 of the specification.
  \<open>IOError\<close> stands for an error of the underlying sink.
\<close>

datatype error =
    BadQosError
  | BadMsgTypeError
  | BadWillQosError
  | BadReturnCodeError
  | MalformedLengthError
  | TruncatedStreamError
  | IOError

text \<open>
  A Go call either returns normally, returns a non-nil \<open>error\<close>, or panics. A panic is
  either an error raised by a read helper, or a fault of the Go runtime (an index out of
  range, \<open>make\<close> with a negative length).
\<close>

datatype fault =
    RaisedError error
  | IndexOutOfRange
  | MakeSliceLenOutOfRange

datatype 'a result =
    Ok 'a
  | Err error
  | Panic fault

fun is_Panic :: "'a result \<Rightarrow> bool" where
  "is_Panic (Panic p) = True"
| "is_Panic (Ok x) = False"
| "is_Panic (Err e) = False"

text \<open>Sequencing of two calls: an error return or a panic of the first ends the run.\<close>

fun rbind :: "'a result \<Rightarrow> ('a \<Rightarrow> 'b result) \<Rightarrow> 'b result" where
  "rbind (Ok x) f = f x"
| "rbind (Err e) f = Err e"
| "rbind (Panic p) f = Panic p"

text \<open>
  Modelled from the spec: \<open>recoverError\<close> is not in \<open>messages.go\<close>. Section 4.6: an
  error that is already returned is passed on unchanged; and in \<open>mqtt_test.go\<close> a decode
  that succeeds returns nil. How it is called is in \<open>messages.go\<close>: every Decode method
  opens with \<open>defer func() { err = recoverError(err) }()\<close>, so \<open>recoverError\<close> is called
  by the deferred closure and is not the deferred function itself. A \<open>recover()\<close> inside it
  is not called directly by a deferred function; in Go it returns nil and stops no panic.
  A fault raised in the body of a Decode method therefore goes on past the method.
\<close>

fun deferred_recoverError :: "'a result \<Rightarrow> 'a result" where
  "deferred_recoverError (Ok x) = Ok x"
| "deferred_recoverError (Err e) = Err e"
| "deferred_recoverError (Panic p) = Panic p"

section \<open>Source and sink\<close>

text \<open>
  An \<open>io.Reader\<close> is the list of octets it still holds. \<open>io.ReadFull\<close> fills a buffer
  of \<open>n\<close> octets or returns an error (\<open>io.EOF\<close>, \<open>io.ErrUnexpectedEOF\<close>), which section 7
  of the specification calls \<open>TruncatedStreamError\<close>.
\<close>

type_synonym reader = "byte list"

definition ReadFull :: "reader \<Rightarrow> nat \<Rightarrow> error + (byte list \<times> reader)" where
  "ReadFull r n =
     (if length r < n then Inl TruncatedStreamError else Inr (take n r, drop n r))"

text \<open>
  An \<open>io.Writer\<close> is the octets it has accepted and the number of octets it still
  accepts. A \<open>Write\<close> that does not fit writes what fits and returns an error.
\<close>

record writer =
  written :: "byte list"
  room :: nat

definition Write :: "writer \<Rightarrow> byte list \<Rightarrow> writer \<times> unit result" where
  "Write w p =
     (if length p \<le> room w
      then (w\<lparr>written := written w @ p, room := room w - length p\<rparr>, Ok ())
      else (w\<lparr>written := written w @ take (room w) p, room := 0\<rparr>, Err IOError))"

section \<open>Primitive field codec\<close>

text \<open>
  Modelled from the spec: \<open>boolToByte\<close>, \<open>setUint8\<close>, \<open>setUint16\<close>, \<open>setString\<close>,
  \<open>getUint8\<close>, \<open>getUint16\<close> and \<open>getString\<close> are called by \<open>messages.go\<close> and defined in
  a file that is not there. Section 4.2: an 8-bit integer is one octet; a 16-bit integer
  is two octets, most significant first; a text field is a 16-bit length and then that
  many octets. The \<open>set\<close> functions append to a \<open>bytes.Buffer\<close>, here the list of octets
  written so far. A Go string is a sequence of octets, as a HOL \<open>string\<close> is.
\<close>

definition boolToByte :: "bool \<Rightarrow> byte" where
  "boolToByte b = (if b then 1 else 0)"

definition setUint8 :: "byte \<Rightarrow> byte list \<Rightarrow> byte list" where
  "setUint8 v buf = buf @ [v]"

definition setUint16 :: "16 word \<Rightarrow> byte list \<Rightarrow> byte list" where
  "setUint16 v buf = buf @ [ucast (drop_bit 8 v), ucast (v AND 0xFF)]"

definition string_bytes :: "string \<Rightarrow> byte list" where
  "string_bytes s = map of_char s"

definition bytes_string :: "byte list \<Rightarrow> string" where
  "bytes_string bs = map (\<lambda>b. char_of (unat b)) bs"

definition setString :: "string \<Rightarrow> byte list \<Rightarrow> byte list" where
  "setString s buf = setUint16 (word_of_nat (length s)) buf @ string_bytes s"

text \<open>
  Modelled from the spec: the \<open>get\<close> functions take the source and the remaining-length
  budget of the packet (\<open>*packetRemaining\<close>, an \<open>int32\<close>) and return the value, the rest
  of the source and the budget left. Section 4.4: a read beyond the budget is a fault;
  section 4.2: so is a source that ends before the field does. Section 7 has one error
  kind for both, \<open>TruncatedStreamError\<close>. In \<open>messages.go\<close> the calls take the value
  alone (\<open>msg.TopicName = getString(r, &packetRemaining)\<close>): a read has no error to
  return, and a read that fails panics.
\<close>

definition getUint8 :: "reader \<Rightarrow> int \<Rightarrow> (byte \<times> reader \<times> int) result" where
  "getUint8 r pr =
     (if pr < 1 then Panic (RaisedError TruncatedStreamError)
      else case ReadFull r 1 of
             Inl e \<Rightarrow> Panic (RaisedError e)
           | Inr (b, r') \<Rightarrow> Ok (b ! 0, r', pr - 1))"

definition getUint16 :: "reader \<Rightarrow> int \<Rightarrow> (16 word \<times> reader \<times> int) result" where
  "getUint16 r pr =
     (if pr < 2 then Panic (RaisedError TruncatedStreamError)
      else case ReadFull r 2 of
             Inl e \<Rightarrow> Panic (RaisedError e)
           | Inr (b, r') \<Rightarrow>
               Ok (push_bit 8 (ucast (b ! 0)) OR ucast (b ! 1), r', pr - 2))"

definition getString :: "reader \<Rightarrow> int \<Rightarrow> (string \<times> reader \<times> int) result" where
  "getString r pr =
     rbind (getUint16 r pr) (\<lambda>(n, r1, pr1).
       let strLen = unat n in
       if pr1 < int strLen then Panic (RaisedError TruncatedStreamError)
       else case ReadFull r1 strLen of
              Inl e \<Rightarrow> Panic (RaisedError e)
            | Inr (b, r2) \<Rightarrow> Ok (bytes_string b, r2, pr1 - int strLen))"

section \<open>Variable-length integer codec\<close>

text \<open>
  Modelled from the spec: \<open>encodeLength\<close> and \<open>decodeLength\<close> are called by
  \<open>messages.go\<close> and are not there. Section 4.1: the integer is written in 7-bit chunks,
  least significant first, every chunk but the last with its top bit set, in the least
  number of chunks (0 is one zero chunk). The specification speaks of non-negative
  integers only; no statement below depends on what is written for a negative one.
\<close>

function encodeLength_chunks :: "int \<Rightarrow> byte list" where
  "encodeLength_chunks n =
     (if n < 128 then [word_of_int n]
      else (word_of_int (n mod 128) OR 0x80) # encodeLength_chunks (n div 128))"
  by pat_completeness auto
termination
  by (relation "measure nat") auto

definition encodeLength :: "int \<Rightarrow> byte list \<Rightarrow> byte list" where
  "encodeLength n buf = buf @ encodeLength_chunks n"

text \<open>
  Modelled from the spec: section 4.1: decoding reads chunks until one has no
  continuation flag, adding \<open>chunk_low7 * 128^i\<close> for chunk \<open>i\<close>, from 0. At most 4 chunks
  are read; a field that goes on after them is malformed. A source that ends inside the
  field is a fault, as for the other reads.
\<close>

fun decodeLength_from :: "nat \<Rightarrow> int \<Rightarrow> reader \<Rightarrow> (int \<times> reader) result" where
  "decodeLength_from i v [] =
     (if 4 \<le> i then Panic (RaisedError MalformedLengthError)
      else Panic (RaisedError TruncatedStreamError))"
| "decodeLength_from i v (b # r) =
     (if 4 \<le> i then Panic (RaisedError MalformedLengthError)
      else let v' = v + uint (b AND 0x7F) * 128 ^ i in
           if b AND 0x80 = 0 then Ok (v', r) else decodeLength_from (i + 1) v' r)"

definition decodeLength :: "reader \<Rightarrow> (int \<times> reader) result" where
  "decodeLength r = decodeLength_from 0 0 r"

section \<open>Fixed-header codec\<close>

text \<open>
  Modelled from the spec: the declaration of \<open>QosLevel\<close> and its methods \<open>IsValid\<close> and
  \<open>HasId\<close> are not in \<open>messages.go\<close>, which converts a \<open>QosLevel\<close> to and from a
  \<open>byte\<close>. Section 3: the valid values are 0, 1 and 2; levels 1 and 2 have an id.
\<close>

type_synonym QosLevel = byte

definition QosLevel_IsValid :: "QosLevel \<Rightarrow> bool" where
  "QosLevel_IsValid qos = (qos < 3)"

definition QosLevel_HasId :: "QosLevel \<Rightarrow> bool" where
  "QosLevel_HasId qos = (qos = 1 \<or> qos = 2)"

type_synonym MessageType = byte

definition MsgConnect :: MessageType where "MsgConnect = 1"
definition MsgConnAck :: MessageType where "MsgConnAck = 2"
definition MsgPublish :: MessageType where "MsgPublish = 3"
definition MsgPubAck :: MessageType where "MsgPubAck = 4"
definition MsgPubRec :: MessageType where "MsgPubRec = 5"
definition MsgPubRel :: MessageType where "MsgPubRel = 6"
definition MsgPubComp :: MessageType where "MsgPubComp = 7"
definition MsgSubscribe :: MessageType where "MsgSubscribe = 8"
definition MsgSubAck :: MessageType where "MsgSubAck = 9"
definition MsgUnsubscribe :: MessageType where "MsgUnsubscribe = 10"
definition MsgUnsubAck :: MessageType where "MsgUnsubAck = 11"
definition MsgPingReq :: MessageType where "MsgPingReq = 12"
definition MsgPingResp :: MessageType where "MsgPingResp = 13"
definition MsgDisconnect :: MessageType where "MsgDisconnect = 14"
definition msgTypeFirstInvalid :: MessageType where "msgTypeFirstInvalid = 15"

definition MessageType_IsValid :: "MessageType \<Rightarrow> bool" where
  "MessageType_IsValid mt = (MsgConnect \<le> mt \<and> mt < msgTypeFirstInvalid)"

record Header =
  DupFlag :: bool
  Retain :: bool
  QosLevel :: QosLevel

text \<open>\<open>Header.Encode\<close>: the checks, then one \<open>Write\<close> of the octet and the length.\<close>

definition Header_Encode ::
  "Header \<Rightarrow> writer \<Rightarrow> MessageType \<Rightarrow> int \<Rightarrow> writer \<times> unit result" where
  "Header_Encode hdr w msgType remainingLength =
     (if \<not> QosLevel_IsValid (QosLevel hdr) then (w, Err BadQosError)
      else if \<not> MessageType_IsValid msgType then (w, Err BadMsgTypeError)
      else
        let val = push_bit 4 msgType;
            val = val OR push_bit 3 (boolToByte (DupFlag hdr));
            val = val OR push_bit 1 (QosLevel hdr);
            val = val OR boolToByte (Retain hdr);
            buf = [val];
            buf = encodeLength remainingLength buf
        in Write w buf)"

text \<open>
  \<open>Header.Decode\<close> returns the message type, the remaining length, the header it has
  filled in and the rest of the source.
\<close>

definition Header_Decode :: "reader \<Rightarrow> (MessageType \<times> int \<times> Header \<times> reader) result" where
  "Header_Decode r =
     deferred_recoverError
       (case ReadFull r 1 of
          Inl e \<Rightarrow> Err e
        | Inr (buf, r1) \<Rightarrow>
            let byte1 = buf ! 0;
                msgType = drop_bit 4 (byte1 AND 0xF0);
                hdr = \<lparr>DupFlag = (byte1 AND 0x08 > 0),
                       Retain = (byte1 AND 0x01 > 0),
                       QosLevel = drop_bit 1 (byte1 AND 0x06)\<rparr>
            in rbind (decodeLength r1) (\<lambda>(remainingLength, r2).
                 Ok (msgType, remainingLength, hdr, r2)))"

text \<open>The conversion \<open>int32(len(...))\<close> of a length.\<close>

definition int32 :: "nat \<Rightarrow> int" where
  "int32 n = sint (word_of_nat n :: 32 word)"

text \<open>\<open>writeMessage\<close> passes the constant \<open>MsgConnect\<close>, whatever the message is.\<close>

definition writeMessage :: "writer \<Rightarrow> Header \<Rightarrow> byte list \<Rightarrow> writer \<times> unit result" where
  "writeMessage w hdr payloadBuf =
     (case Header_Encode hdr w MsgConnect (int32 (length payloadBuf)) of
        (w1, Ok u) \<Rightarrow> Write w1 payloadBuf
      | (w1, Err e) \<Rightarrow> (w1, Err e)
      | (w1, Panic p) \<Rightarrow> (w1, Panic p))"

section \<open>Connect\<close>

record Connect =
  Header :: Header
  ProtocolName :: string
  ProtocolVersion :: byte
  WillRetain :: bool
  WillFlag :: bool
  CleanSession :: bool
  WillQos :: QosLevel
  KeepAliveTimer :: "16 word"
  ClientId :: string
  WillTopic :: string
  WillMessage :: string
  UsernameFlag :: bool
  PasswordFlag :: bool
  Username :: string
  Password :: string

definition Connect_Encode :: "Connect \<Rightarrow> writer \<Rightarrow> writer \<times> unit result" where
  "Connect_Encode msg w =
     (if \<not> QosLevel_IsValid (WillQos msg) then (w, Err BadWillQosError)
      else
        let flags = push_bit 7 (boolToByte (UsernameFlag msg));
            flags = flags OR push_bit 6 (boolToByte (PasswordFlag msg));
            flags = flags OR push_bit 5 (boolToByte (WillRetain msg));
            flags = flags OR push_bit 3 (WillQos msg);
            flags = flags OR push_bit 2 (boolToByte (WillFlag msg));
            flags = flags OR push_bit 1 (boolToByte (CleanSession msg));
            buf = setString (ProtocolName msg) [];
            buf = setUint8 (ProtocolVersion msg) buf;
            buf = buf @ [flags];
            buf = setUint16 (KeepAliveTimer msg) buf;
            buf = setString (ClientId msg) buf;
            buf = (if WillFlag msg
                   then setString (WillMessage msg) (setString (WillTopic msg) buf)
                   else buf);
            buf = (if UsernameFlag msg then setString (Username msg) buf else buf);
            buf = (if PasswordFlag msg then setString (Password msg) buf else buf)
        in writeMessage w (Connect.Header msg) buf)"

text \<open>
  The Decode methods work on the receiver \<open>msg\<close> and return it as they leave it, with
  the rest of the source. \<open>Connect.Decode\<close> assigns a fresh \<open>Connect\<close> value, whose
  fields not named in the literal are the zero values.
\<close>

definition Header_zero :: Header where
  "Header_zero = \<lparr>DupFlag = False, Retain = False, QosLevel = 0\<rparr>"

definition Connect_Decode ::
  "Connect \<Rightarrow> reader \<Rightarrow> Header \<Rightarrow> int \<Rightarrow> (Connect \<times> reader) result" where
  "Connect_Decode msg r hdr packetRemaining =
     deferred_recoverError
       (rbind (getString r packetRemaining) (\<lambda>(protocolName, r, pr).
        rbind (getUint8 r pr) (\<lambda>(protocolVersion, r, pr).
        rbind (getUint8 r pr) (\<lambda>(flags, r, pr).
        rbind (getUint16 r pr) (\<lambda>(keepAliveTimer, r, pr).
        rbind (getString r pr) (\<lambda>(clientId, r, pr).
        let msg = \<lparr>Connect.Header = Header_zero,
                     ProtocolName = protocolName,
                     ProtocolVersion = protocolVersion,
                     WillRetain = (flags AND 0x20 > 0),
                     WillFlag = (flags AND 0x04 > 0),
                     CleanSession = (flags AND 0x02 > 0),
                     WillQos = drop_bit 3 (flags AND 0x18),
                     KeepAliveTimer = keepAliveTimer,
                     ClientId = clientId,
                     WillTopic = [],
                     WillMessage = [],
                     UsernameFlag = (flags AND 0x80 > 0),
                     PasswordFlag = (flags AND 0x40 > 0),
                     Username = [],
                     Password = []\<rparr>
        in
        rbind (if WillFlag msg
               then rbind (getString r pr) (\<lambda>(willTopic, r, pr).
                    rbind (getString r pr) (\<lambda>(willMessage, r, pr).
                      Ok (msg\<lparr>WillTopic := willTopic, WillMessage := willMessage\<rparr>, r, pr)))
               else Ok (msg, r, pr)) (\<lambda>(msg, r, pr).
        rbind (if UsernameFlag msg
               then rbind (getString r pr) (\<lambda>(username, r, pr).
                      Ok (msg\<lparr>Username := username\<rparr>, r, pr))
               else Ok (msg, r, pr)) (\<lambda>(msg, r, pr).
        rbind (if PasswordFlag msg
               then rbind (getString r pr) (\<lambda>(password, r, pr).
                      Ok (msg\<lparr>Password := password\<rparr>, r, pr))
               else Ok (msg, r, pr)) (\<lambda>(msg, r, pr).
        Ok (msg, r))))))))))"

section \<open>ConnAck\<close>

text \<open>
  Modelled from the spec: the declaration of \<open>ReturnCode\<close> and its method \<open>IsValid\<close> are
  not in \<open>messages.go\<close>, which converts a \<open>ReturnCode\<close> to and from a \<open>uint8\<close>.
  Section 3: the valid values are 0 to 5.
\<close>

type_synonym ReturnCode = byte

definition ReturnCode_IsValid :: "ReturnCode \<Rightarrow> bool" where
  "ReturnCode_IsValid rc = (rc \<le> 5)"

record ConnAck =
  Header :: Header
  ReturnCode :: ReturnCode

definition ConnAck_Encode :: "ConnAck \<Rightarrow> writer \<Rightarrow> writer \<times> unit result" where
  "ConnAck_Encode msg w =
     (let buf = [0];
          buf = setUint8 (ReturnCode msg) buf
      in writeMessage w (ConnAck.Header msg) buf)"

definition ConnAck_Decode ::
  "ConnAck \<Rightarrow> reader \<Rightarrow> Header \<Rightarrow> int \<Rightarrow> (ConnAck \<times> reader) result" where
  "ConnAck_Decode msg r hdr packetRemaining =
     deferred_recoverError
       (rbind (getUint8 r packetRemaining) (\<lambda>(reserved, r, pr).
        rbind (getUint8 r pr) (\<lambda>(rc, r, pr).
        let msg = msg\<lparr>ReturnCode := rc\<rparr> in
        if \<not> ReturnCode_IsValid (ReturnCode msg) then Err BadReturnCodeError
        else Ok (msg, r))))"

section \<open>Publish\<close>

record Publish =
  Header :: Header
  TopicName :: string
  MessageId :: "16 word"
  Data :: "byte list"

definition Publish_Encode :: "Publish \<Rightarrow> writer \<Rightarrow> writer \<times> unit result" where
  "Publish_Encode msg w =
     (let buf = setString (TopicName msg) [];
          buf = (if QosLevel_HasId (QosLevel (Publish.Header msg))
                 then setUint16 (Publish.MessageId msg) buf else buf);
          buf = buf @ Data msg
      in writeMessage w (Publish.Header msg) buf)"

text \<open>
  \<open>Publish.Decode\<close> asks the receiver's own header for the QoS level, not the \<open>hdr\<close> it
  is given. \<open>make([]byte, packetRemaining)\<close> panics on a negative length.
\<close>

definition Publish_Decode ::
  "Publish \<Rightarrow> reader \<Rightarrow> Header \<Rightarrow> int \<Rightarrow> (Publish \<times> reader) result" where
  "Publish_Decode msg r hdr packetRemaining =
     deferred_recoverError
       (rbind (getString r packetRemaining) (\<lambda>(topicName, r, pr).
        let msg = msg\<lparr>TopicName := topicName\<rparr> in
        rbind (if QosLevel_HasId (QosLevel (Publish.Header msg))
               then rbind (getUint16 r pr) (\<lambda>(messageId, r, pr).
                      Ok (msg\<lparr>Publish.MessageId := messageId\<rparr>, r, pr))
               else Ok (msg, r, pr)) (\<lambda>(msg, r, pr).
        if pr < 0 then Panic MakeSliceLenOutOfRange
        else case ReadFull r (nat pr) of
               Inl e \<Rightarrow> Err e
             | Inr (data, r) \<Rightarrow> Ok (msg\<lparr>Data := data\<rparr>, r))))"

section \<open>Subscribe\<close>

record Subscribe =
  Header :: Header
  MessageId :: "16 word"
  Topics :: "string list"
  TopicsQos :: "QosLevel list"

text \<open>
  The loop of \<open>Subscribe.Encode\<close>, from index \<open>i\<close>. The guard keeps \<open>i\<close> inside
  \<open>Topics\<close>; nothing keeps it inside \<open>TopicsQos\<close>, where Go panics out of range.
\<close>

function Subscribe_Encode_loop :: "Subscribe \<Rightarrow> nat \<Rightarrow> byte list \<Rightarrow> byte list result" where
  "Subscribe_Encode_loop msg i buf =
     (if i < length (Topics msg) then
        let buf = setString (Topics msg ! i) buf in
        if i < length (Subscribe.TopicsQos msg)
        then Subscribe_Encode_loop msg (i + 1) (setUint8 (Subscribe.TopicsQos msg ! i) buf)
        else Panic IndexOutOfRange
      else Ok buf)"
  by pat_completeness auto
termination
  by (relation "measure (\<lambda>(msg, i, buf). length (Topics msg) - i)") auto

definition Subscribe_Encode :: "Subscribe \<Rightarrow> writer \<Rightarrow> writer \<times> unit result" where
  "Subscribe_Encode msg w =
     (let buf = [];
          buf = (if QosLevel_HasId (QosLevel (Subscribe.Header msg))
                 then setUint16 (Subscribe.MessageId msg) buf else buf)
      in case Subscribe_Encode_loop msg 0 buf of
           Ok buf \<Rightarrow> writeMessage w (Subscribe.Header msg) buf
         | Err e \<Rightarrow> (w, Err e)
         | Panic p \<Rightarrow> (w, Panic p))"

function Subscribe_Decode_loop ::
  "reader \<Rightarrow> int \<Rightarrow> string list \<Rightarrow> QosLevel list
     \<Rightarrow> (string list \<times> QosLevel list \<times> reader) result" where
  "Subscribe_Decode_loop r pr topics topicsQos =
     (if pr > 0 then
        (case getString r pr of
           Ok (topic, r1, pr1) \<Rightarrow>
             (case getUint8 r1 pr1 of
                Ok (qos, r2, pr2) \<Rightarrow>
                  Subscribe_Decode_loop r2 pr2 (topics @ [topic]) (topicsQos @ [qos])
              | Err e \<Rightarrow> Err e
              | Panic p \<Rightarrow> Panic p)
         | Err e \<Rightarrow> Err e
         | Panic p \<Rightarrow> Panic p)
      else Ok (topics, topicsQos, r))"
  by pat_completeness auto
termination
  by (relation "measure (\<lambda>(r, pr, topics, topicsQos). nat pr)")
     (auto simp: getString_def getUint16_def getUint8_def ReadFull_def Let_def
           simp del: of_nat_unat split: if_splits sum.splits prod.splits)

definition Subscribe_Decode ::
  "Subscribe \<Rightarrow> reader \<Rightarrow> Header \<Rightarrow> int \<Rightarrow> (Subscribe \<times> reader) result" where
  "Subscribe_Decode msg r hdr packetRemaining =
     deferred_recoverError
       (rbind (if QosLevel_HasId (QosLevel (Subscribe.Header msg))
               then rbind (getUint16 r packetRemaining) (\<lambda>(messageId, r, pr).
                      Ok (msg\<lparr>Subscribe.MessageId := messageId\<rparr>, r, pr))
               else Ok (msg, r, packetRemaining)) (\<lambda>(msg, r, pr).
        rbind (Subscribe_Decode_loop r pr [] []) (\<lambda>(topics, topicsQos, r).
        Ok (msg\<lparr>Topics := topics, Subscribe.TopicsQos := topicsQos\<rparr>, r))))"

section \<open>SubAck\<close>

record SubAck =
  Header :: Header
  MessageId :: "16 word"
  TopicsQos :: "QosLevel list"

text \<open>The loop of \<open>SubAck.Encode\<close> stays inside the one slice it walks.\<close>

function SubAck_Encode_loop :: "SubAck \<Rightarrow> nat \<Rightarrow> byte list \<Rightarrow> byte list" where
  "SubAck_Encode_loop msg i buf =
     (if i < length (SubAck.TopicsQos msg)
      then SubAck_Encode_loop msg (i + 1) (setUint8 (SubAck.TopicsQos msg ! i) buf)
      else buf)"
  by pat_completeness auto
termination
  by (relation "measure (\<lambda>(msg, i, buf). length (SubAck.TopicsQos msg) - i)") auto

definition SubAck_Encode :: "SubAck \<Rightarrow> writer \<Rightarrow> writer \<times> unit result" where
  "SubAck_Encode msg w =
     (let buf = setUint16 (SubAck.MessageId msg) [];
          buf = SubAck_Encode_loop msg 0 buf
      in writeMessage w (SubAck.Header msg) buf)"

function SubAck_Decode_loop ::
  "reader \<Rightarrow> int \<Rightarrow> QosLevel list \<Rightarrow> (QosLevel list \<times> reader) result" where
  "SubAck_Decode_loop r pr topicsQos =
     (if pr > 0 then
        (case getUint8 r pr of
           Ok (b, r1, pr1) \<Rightarrow>
             (let grantedQos = b AND 0x03
              in SubAck_Decode_loop r1 pr1 (topicsQos @ [grantedQos]))
         | Err e \<Rightarrow> Err e
         | Panic p \<Rightarrow> Panic p)
      else Ok (topicsQos, r))"
  by pat_completeness auto
termination
  by (relation "measure (\<lambda>(r, pr, topicsQos). nat pr)")
     (auto simp: getUint8_def ReadFull_def split: if_splits sum.splits)

definition SubAck_Decode ::
  "SubAck \<Rightarrow> reader \<Rightarrow> Header \<Rightarrow> int \<Rightarrow> (SubAck \<times> reader) result" where
  "SubAck_Decode msg r hdr packetRemaining =
     deferred_recoverError
       (rbind (getUint16 r packetRemaining) (\<lambda>(messageId, r, pr).
        let msg = msg\<lparr>SubAck.MessageId := messageId\<rparr> in
        rbind (SubAck_Decode_loop r pr []) (\<lambda>(topicsQos, r).
        Ok (msg\<lparr>SubAck.TopicsQos := topicsQos\<rparr>, r))))"

section \<open>Unsubscribe\<close>

record Unsubscribe =
  Header :: Header
  MessageId :: "16 word"
  Topics :: "string list"

fun Unsubscribe_Encode_loop :: "string list \<Rightarrow> byte list \<Rightarrow> byte list" where
  "Unsubscribe_Encode_loop [] buf = buf"
| "Unsubscribe_Encode_loop (topic # topics) buf =
     Unsubscribe_Encode_loop topics (setString topic buf)"

definition Unsubscribe_Encode :: "Unsubscribe \<Rightarrow> writer \<Rightarrow> writer \<times> unit result" where
  "Unsubscribe_Encode msg w =
     (let buf = [];
          buf = (if QosLevel_HasId (QosLevel (Unsubscribe.Header msg))
                 then setUint16 (Unsubscribe.MessageId msg) buf else buf);
          buf = Unsubscribe_Encode_loop (Unsubscribe.Topics msg) buf
      in writeMessage w (Unsubscribe.Header msg) buf)"

function Unsubscribe_Decode_loop ::
  "reader \<Rightarrow> int \<Rightarrow> string list \<Rightarrow> (string list \<times> reader) result" where
  "Unsubscribe_Decode_loop r pr topics =
     (if pr > 0 then
        (case getString r pr of
           Ok (topic, r1, pr1) \<Rightarrow> Unsubscribe_Decode_loop r1 pr1 (topics @ [topic])
         | Err e \<Rightarrow> Err e
         | Panic p \<Rightarrow> Panic p)
      else Ok (topics, r))"
  by pat_completeness auto
termination
  by (relation "measure (\<lambda>(r, pr, topics). nat pr)")
     (auto simp: getString_def getUint16_def ReadFull_def Let_def
           simp del: of_nat_unat split: if_splits sum.splits prod.splits)

definition Unsubscribe_Decode ::
  "Unsubscribe \<Rightarrow> reader \<Rightarrow> Header \<Rightarrow> int \<Rightarrow> (Unsubscribe \<times> reader) result" where
  "Unsubscribe_Decode msg r hdr packetRemaining =
     deferred_recoverError
       (rbind (let qos = QosLevel (Unsubscribe.Header msg) in
               if qos = 1 \<or> qos = 2
               then rbind (getUint16 r packetRemaining) (\<lambda>(messageId, r, pr).
                      Ok (msg\<lparr>Unsubscribe.MessageId := messageId\<rparr>, r, pr))
               else Ok (msg, r, packetRemaining)) (\<lambda>(msg, r, pr).
        rbind (Unsubscribe_Decode_loop r pr []) (\<lambda>(topics, r).
        Ok (msg\<lparr>Unsubscribe.Topics := topics\<rparr>, r))))"

section \<open>The acknowledgements\<close>

record AckCommon =
  Header :: Header
  MessageId :: "16 word"

definition AckCommon_Encode :: "AckCommon \<Rightarrow> writer \<Rightarrow> writer \<times> unit result" where
  "AckCommon_Encode msg w =
     (let buf = setUint16 (AckCommon.MessageId msg) []
      in writeMessage w (AckCommon.Header msg) buf)"

definition AckCommon_Decode ::
  "AckCommon \<Rightarrow> reader \<Rightarrow> Header \<Rightarrow> int \<Rightarrow> (AckCommon \<times> reader) result" where
  "AckCommon_Decode msg r hdr packetRemaining =
     deferred_recoverError
       (rbind (getUint16 r packetRemaining) (\<lambda>(messageId, r, pr).
        Ok (msg\<lparr>AckCommon.MessageId := messageId\<rparr>, r)))"

section \<open>The message interface and the dispatch\<close>

text \<open>
  The five acknowledgements (\<open>PubAck\<close>, \<open>PubRec\<close>, \<open>PubRel\<close>, \<open>PubComp\<close>, \<open>UnsubAck\<close>)
  are structs that embed \<open>AckCommon\<close> and nothing else. \<open>PingReq\<close>, \<open>PingResp\<close> and
  \<open>Disconnect\<close> are not in \<open>messages.go\<close>; by section 4.4 they are a header and no
  payload.
\<close>

datatype Message =
    Connect_msg Connect
  | ConnAck_msg ConnAck
  | Publish_msg Publish
  | PubAck_msg AckCommon
  | PubRec_msg AckCommon
  | PubRel_msg AckCommon
  | PubComp_msg AckCommon
  | Subscribe_msg Subscribe
  | SubAck_msg SubAck
  | Unsubscribe_msg Unsubscribe
  | UnsubAck_msg AckCommon
  | PingReq_msg Header
  | PingResp_msg Header
  | Disconnect_msg Header

text \<open>
  Modelled from the spec: the Encode and Decode methods of \<open>PingReq\<close>, \<open>PingResp\<close> and
  \<open>Disconnect\<close> are not in \<open>messages.go\<close>. Sections 4.3 and 4.4: encoding writes the
  fixed header of the message's type with remaining length 0; decoding reads no field.
\<close>

definition HeaderOnly_Encode :: "MessageType \<Rightarrow> Header \<Rightarrow> writer \<Rightarrow> writer \<times> unit result" where
  "HeaderOnly_Encode msgType msg w = Header_Encode msg w msgType 0"

definition HeaderOnly_Decode ::
  "Header \<Rightarrow> reader \<Rightarrow> Header \<Rightarrow> int \<Rightarrow> (Header \<times> reader) result" where
  "HeaderOnly_Decode msg r hdr packetRemaining = deferred_recoverError (Ok (msg, r))"

text \<open>The method \<open>Encode\<close> of the interface \<open>Message\<close>.\<close>

fun Message_Encode :: "Message \<Rightarrow> writer \<Rightarrow> writer \<times> unit result" where
  "Message_Encode (Connect_msg m) w = Connect_Encode m w"
| "Message_Encode (ConnAck_msg m) w = ConnAck_Encode m w"
| "Message_Encode (Publish_msg m) w = Publish_Encode m w"
| "Message_Encode (PubAck_msg m) w = AckCommon_Encode m w"
| "Message_Encode (PubRec_msg m) w = AckCommon_Encode m w"
| "Message_Encode (PubRel_msg m) w = AckCommon_Encode m w"
| "Message_Encode (PubComp_msg m) w = AckCommon_Encode m w"
| "Message_Encode (Subscribe_msg m) w = Subscribe_Encode m w"
| "Message_Encode (SubAck_msg m) w = SubAck_Encode m w"
| "Message_Encode (Unsubscribe_msg m) w = Unsubscribe_Encode m w"
| "Message_Encode (UnsubAck_msg m) w = AckCommon_Encode m w"
| "Message_Encode (PingReq_msg m) w = HeaderOnly_Encode MsgPingReq m w"
| "Message_Encode (PingResp_msg m) w = HeaderOnly_Encode MsgPingResp m w"
| "Message_Encode (Disconnect_msg m) w = HeaderOnly_Encode MsgDisconnect m w"

text \<open>The method \<open>Decode\<close> of the interface \<open>Message\<close>.\<close>

definition with_msg :: "('a \<Rightarrow> Message) \<Rightarrow> ('a \<times> reader) result \<Rightarrow> (Message \<times> reader) result" where
  "with_msg C x = rbind x (\<lambda>(m, r). Ok (C m, r))"

fun Message_Decode :: "Message \<Rightarrow> reader \<Rightarrow> Header \<Rightarrow> int \<Rightarrow> (Message \<times> reader) result" where
  "Message_Decode (Connect_msg m) r hdr pr = with_msg Connect_msg (Connect_Decode m r hdr pr)"
| "Message_Decode (ConnAck_msg m) r hdr pr = with_msg ConnAck_msg (ConnAck_Decode m r hdr pr)"
| "Message_Decode (Publish_msg m) r hdr pr = with_msg Publish_msg (Publish_Decode m r hdr pr)"
| "Message_Decode (PubAck_msg m) r hdr pr = with_msg PubAck_msg (AckCommon_Decode m r hdr pr)"
| "Message_Decode (PubRec_msg m) r hdr pr = with_msg PubRec_msg (AckCommon_Decode m r hdr pr)"
| "Message_Decode (PubRel_msg m) r hdr pr = with_msg PubRel_msg (AckCommon_Decode m r hdr pr)"
| "Message_Decode (PubComp_msg m) r hdr pr = with_msg PubComp_msg (AckCommon_Decode m r hdr pr)"
| "Message_Decode (Subscribe_msg m) r hdr pr =
     with_msg Subscribe_msg (Subscribe_Decode m r hdr pr)"
| "Message_Decode (SubAck_msg m) r hdr pr = with_msg SubAck_msg (SubAck_Decode m r hdr pr)"
| "Message_Decode (Unsubscribe_msg m) r hdr pr =
     with_msg Unsubscribe_msg (Unsubscribe_Decode m r hdr pr)"
| "Message_Decode (UnsubAck_msg m) r hdr pr = with_msg UnsubAck_msg (AckCommon_Decode m r hdr pr)"
| "Message_Decode (PingReq_msg m) r hdr pr = with_msg PingReq_msg (HeaderOnly_Decode m r hdr pr)"
| "Message_Decode (PingResp_msg m) r hdr pr = with_msg PingResp_msg (HeaderOnly_Decode m r hdr pr)"
| "Message_Decode (Disconnect_msg m) r hdr pr =
     with_msg Disconnect_msg (HeaderOnly_Decode m r hdr pr)"

text \<open>
  Modelled from the spec: \<open>DecodeRead\<close> is not in \<open>messages.go\<close> (the test calls it).
  Section 4.5: it decodes the fixed header, validates the message type, constructs the
  empty message value of that type, calls its Decode with the header and the
  remaining-length budget, and returns the message or the error unchanged.
\<close>

definition Connect_zero :: Connect where
  "Connect_zero =
     \<lparr>Connect.Header = Header_zero, ProtocolName = [], ProtocolVersion = 0,
      WillRetain = False, WillFlag = False, CleanSession = False, WillQos = 0,
      KeepAliveTimer = 0, ClientId = [], WillTopic = [], WillMessage = [],
      UsernameFlag = False, PasswordFlag = False, Username = [], Password = []\<rparr>"

definition ConnAck_zero :: ConnAck where
  "ConnAck_zero = \<lparr>ConnAck.Header = Header_zero, ReturnCode = 0\<rparr>"

definition Publish_zero :: Publish where
  "Publish_zero =
     \<lparr>Publish.Header = Header_zero, TopicName = [], Publish.MessageId = 0, Data = []\<rparr>"

definition Subscribe_zero :: Subscribe where
  "Subscribe_zero =
     \<lparr>Subscribe.Header = Header_zero, Subscribe.MessageId = 0, Subscribe.Topics = [],
      Subscribe.TopicsQos = []\<rparr>"

definition SubAck_zero :: SubAck where
  "SubAck_zero =
     \<lparr>SubAck.Header = Header_zero, SubAck.MessageId = 0, SubAck.TopicsQos = []\<rparr>"

definition Unsubscribe_zero :: Unsubscribe where
  "Unsubscribe_zero =
     \<lparr>Unsubscribe.Header = Header_zero, Unsubscribe.MessageId = 0, Unsubscribe.Topics = []\<rparr>"

definition AckCommon_zero :: AckCommon where
  "AckCommon_zero = \<lparr>AckCommon.Header = Header_zero, AckCommon.MessageId = 0\<rparr>"

definition NewMessage :: "MessageType \<Rightarrow> Message" where
  "NewMessage msgType =
     (if msgType = MsgConnect then Connect_msg Connect_zero
      else if msgType = MsgConnAck then ConnAck_msg ConnAck_zero
      else if msgType = MsgPublish then Publish_msg Publish_zero
      else if msgType = MsgPubAck then PubAck_msg AckCommon_zero
      else if msgType = MsgPubRec then PubRec_msg AckCommon_zero
      else if msgType = MsgPubRel then PubRel_msg AckCommon_zero
      else if msgType = MsgPubComp then PubComp_msg AckCommon_zero
      else if msgType = MsgSubscribe then Subscribe_msg Subscribe_zero
      else if msgType = MsgSubAck then SubAck_msg SubAck_zero
      else if msgType = MsgUnsubscribe then Unsubscribe_msg Unsubscribe_zero
      else if msgType = MsgUnsubAck then UnsubAck_msg AckCommon_zero
      else if msgType = MsgPingReq then PingReq_msg Header_zero
      else if msgType = MsgPingResp then PingResp_msg Header_zero
      else Disconnect_msg Header_zero)"

definition DecodeRead :: "reader \<Rightarrow> (Message \<times> reader) result" where
  "DecodeRead r =
     rbind (Header_Decode r) (\<lambda>(msgType, packetRemaining, hdr, r).
       if \<not> MessageType_IsValid msgType then Err BadMsgTypeError
       else Message_Decode (NewMessage msgType) r hdr packetRemaining)"

section \<open>Auxiliary notions for the statements\<close>

text \<open>The equations of the loops are used one step at a time.\<close>

declare Subscribe_Encode_loop.simps [simp del]
declare Subscribe_Decode_loop.simps [simp del]
declare SubAck_Encode_loop.simps [simp del]
declare SubAck_Decode_loop.simps [simp del]
declare Unsubscribe_Decode_loop.simps [simp del]

text \<open>The header embedded in a message.\<close>

fun Message_Header :: "Message \<Rightarrow> Header" where
  "Message_Header (Connect_msg m) = Connect.Header m"
| "Message_Header (ConnAck_msg m) = ConnAck.Header m"
| "Message_Header (Publish_msg m) = Publish.Header m"
| "Message_Header (PubAck_msg m) = AckCommon.Header m"
| "Message_Header (PubRec_msg m) = AckCommon.Header m"
| "Message_Header (PubRel_msg m) = AckCommon.Header m"
| "Message_Header (PubComp_msg m) = AckCommon.Header m"
| "Message_Header (Subscribe_msg m) = Subscribe.Header m"
| "Message_Header (SubAck_msg m) = SubAck.Header m"
| "Message_Header (Unsubscribe_msg m) = Unsubscribe.Header m"
| "Message_Header (UnsubAck_msg m) = AckCommon.Header m"
| "Message_Header (PingReq_msg m) = m"
| "Message_Header (PingResp_msg m) = m"
| "Message_Header (Disconnect_msg m) = m"

text \<open>A Connect message has a valid will-QoS; the other kinds have no such field.\<close>

fun will_qos_valid :: "Message \<Rightarrow> bool" where
  "will_qos_valid (Connect_msg m) = QosLevel_IsValid (WillQos m)"
| "will_qos_valid m = True"

text \<open>A Subscribe message has a requested QoS for each of its topics.\<close>

fun topics_have_qos :: "Message \<Rightarrow> bool" where
  "topics_have_qos (Subscribe_msg m) =
     (length (Subscribe.Topics m) \<le> length (Subscribe.TopicsQos m))"
| "topics_have_qos m = True"

text \<open>
  The message of \<open>Test\<close> in \<open>mqtt_test.go\<close>, and the layout the test expects, with the
  remaining length as a parameter. The test's own value is
  \<open>12 + 5*2 + 8 + 5 + 7 + 4 + 3\<close>, which is 49.
\<close>

definition Test_msg :: Connect where
  "Test_msg =
     \<lparr>Connect.Header = Header_zero, ProtocolName = ''MQIsdp'', ProtocolVersion = 3,
      WillRetain = False, WillFlag = True, CleanSession = True, WillQos = 1,
      KeepAliveTimer = 10, ClientId = ''xixihaha'', WillTopic = ''topic'',
      WillMessage = ''message'', UsernameFlag = True, PasswordFlag = True,
      Username = ''name'', Password = ''pwd''\<rparr>"

definition Test_layout :: "int \<Rightarrow> byte list" where
  "Test_layout remaining =
     [0x10] @ encodeLength remaining [] @
     [0x00, 0x06] @ string_bytes ''MQIsdp'' @
     [0x03, 0xCE, 0x00, 0x0A] @
     setString ''xixihaha'' [] @ setString ''topic'' [] @ setString ''message'' [] @
     setString ''name'' [] @ setString ''pwd'' []"

section \<open>The variable-length integer codec: round trip\<close>

lemma int_and_127: "(x::int) AND 127 = x mod 128"
proof -
  have "x AND mask 7 = take_bit 7 x" by (simp only: take_bit_eq_mask)
  then show ?thesis by (simp add: take_bit_eq_mod mask_eq_exp_minus_1)
qed

lemma int_and_128:
  assumes "0 \<le> x" "x < 128"
  shows "(x::int) AND 128 = 0"
proof -
  have "\<not> bit x 7" using assms by (simp add: bit_iff_odd)
  moreover have "(x AND 2 ^ 7 = 0) = (\<not> bit x 7)" by (rule and_exp_eq_0_iff_not_bit)
  ultimately show ?thesis by simp
qed

lemma uint_low7: "uint ((b::byte) AND 0x7F) = uint b mod 128"
  by (simp add: unsigned_and_eq int_and_127)

lemma chunk_last:
  assumes "0 \<le> k" "k < 128"
  shows "(word_of_int k :: byte) AND 0x80 = 0"
    and "uint ((word_of_int k :: byte) AND 0x7F) = k"
proof -
  have u: "uint (word_of_int k :: byte) = k" using assms by (simp add: uint_word_of_int)
  have "uint ((word_of_int k :: byte) AND 0x80) = 0"
    using assms by (simp add: unsigned_and_eq u int_and_128)
  then show "(word_of_int k :: byte) AND 0x80 = 0" by (simp add: unsigned_eq_0_iff)
  show "uint ((word_of_int k :: byte) AND 0x7F) = k" using assms by (simp add: uint_low7 u)
qed

lemma chunk_cont:
  assumes "0 \<le> k" "k < 128"
  shows "((word_of_int k :: byte) OR 0x80) AND 0x80 \<noteq> 0"
    and "uint (((word_of_int k :: byte) OR 0x80) AND 0x7F) = k"
proof -
  have "((word_of_int k :: byte) OR 0x80) AND 0x80 = (word_of_int k AND 0x80) OR 0x80"
    by (simp add: bit.conj_disj_distrib2)
  then show "((word_of_int k :: byte) OR 0x80) AND 0x80 \<noteq> 0"
    by (simp add: or_eq_0_iff)
  have "((word_of_int k :: byte) OR 0x80) AND 0x7F = word_of_int k AND 0x7F"
    by (simp add: bit.conj_disj_distrib2)
  then show "uint (((word_of_int k :: byte) OR 0x80) AND 0x7F) = k"
    using assms chunk_last(2) by simp
qed

lemma decodeLength_from_last:
  "0 \<le> k \<Longrightarrow> k < 128 \<Longrightarrow> i < 4 \<Longrightarrow>
   decodeLength_from i v (word_of_int k # r) = Ok (v + k * 128 ^ i, r)"
  by (simp add: chunk_last Let_def)

lemma decodeLength_from_cont:
  "0 \<le> k \<Longrightarrow> k < 128 \<Longrightarrow> i < 4 \<Longrightarrow>
   decodeLength_from i v ((word_of_int k OR 0x80) # r) =
     decodeLength_from (Suc i) (v + k * 128 ^ i) r"
  by (simp add: chunk_cont Let_def)

text \<open>
  Reading from chunk \<open>i\<close> on, with \<open>v\<close> accumulated: the chunks of \<open>n\<close> add
  \<open>n * 128^i\<close>, provided they fit in the \<open>4 - i\<close> chunks still allowed.
\<close>

lemma decodeLength_from_chunks:
  "0 \<le> n \<Longrightarrow> n < 128 ^ (4 - i) \<Longrightarrow> i < 4 \<Longrightarrow>
   decodeLength_from i v (encodeLength_chunks n @ rest) = Ok (v + n * 128 ^ i, rest)"
proof (induction n arbitrary: i v rule: encodeLength_chunks.induct)
  case (1 n)
  note [simp del] = decodeLength_from.simps encodeLength_chunks.simps
  show ?case
  proof (cases "n < 128")
    case True
    show ?thesis using True "1.prems"
      by (simp add: encodeLength_chunks.simps [of n] decodeLength_from_last)
  next
    case False
    have i3: "i < 3"
    proof (rule ccontr)
      assume "\<not> i < 3"
      then have "4 - i \<le> 1" by simp
      then have "(128::int) ^ (4 - i) \<le> 128 ^ 1" by (intro power_increasing) auto
      then show False using False "1.prems" by simp
    qed
    then have e: "4 - i = Suc (4 - Suc i)" by simp
    have lt: "n div 128 < 128 ^ (4 - Suc i)"
      using "1.prems"(2) unfolding e by (simp add: div_less_iff_less_mult)
    have ih: "decodeLength_from (Suc i) (v + (n mod 128) * 128 ^ i)
                (encodeLength_chunks (n div 128) @ rest)
              = Ok (v + (n mod 128) * 128 ^ i + (n div 128) * 128 ^ Suc i, rest)"
      using "1.IH" [OF False _ lt] "1.prems"(1) i3 by simp
    have "n * 128 ^ i = (n mod 128 + n div 128 * 128) * 128 ^ i" by simp
    also have "\<dots> = (n mod 128) * 128 ^ i + (n div 128) * 128 ^ Suc i"
      by (simp only: distrib_right power_Suc mult.assoc)
    finally have "(n mod 128) * 128 ^ i + (n div 128) * 128 ^ Suc i = n * 128 ^ i" by simp
    then have "v + (n mod 128) * 128 ^ i + (n div 128) * 128 ^ Suc i = v + n * 128 ^ i"
      by simp
    then show ?thesis using False i3 ih
      by (simp add: encodeLength_chunks.simps [of n] decodeLength_from_cont)
  qed
qed

text \<open>
  C8. For every integer \<open>n\<close> from 0 to 268435455, decoding the octets that
  \<open>encodeLength\<close> writes for \<open>n\<close> gives \<open>n\<close> again, and leaves what follows them in the
  source: \<open>decodeLength(encodeLength(n)) == n\<close>.
\<close>

theorem decodeLength_encodeLength:
  "0 \<le> n \<Longrightarrow> n \<le> 268435455 \<Longrightarrow>
   decodeLength (encodeLength n [] @ rest) = Ok (n, rest)"
  using decodeLength_from_chunks [of n 0 0 rest]
  by (simp add: decodeLength_def encodeLength_def)

theorem decodeLength_encodeLength_witness:
  "(0::int) \<le> 268435455 \<and> (268435455::int) \<le> 268435455 \<and>
   decodeLength (encodeLength 268435455 [] @ [0x30, 0x31]) = Ok (268435455, [0x30, 0x31])"
  using decodeLength_encodeLength [of 268435455 "[0x30, 0x31]"] by simp

section \<open>The primitive reads\<close>

lemma uint16_hi: "ucast (drop_bit 8 (push_bit 8 (ucast (a::byte)) OR (ucast (b::byte)) :: 16 word)) = a"
  by (rule bit_word_eqI) (auto simp: bit_simps dest: bit_imp_le_length)

lemma uint16_lo: "ucast ((push_bit 8 (ucast (a::byte)) OR (ucast (b::byte)) :: 16 word) AND 0xFF) = b"
proof -
  have m: "(0xFF :: 16 word) = mask 8" by (simp add: mask_eq_exp_minus_1)
  show ?thesis unfolding m
    by (rule bit_word_eqI) (auto simp: bit_simps dest: bit_imp_le_length)
qed

lemma setUint16_of_octets: "setUint16 (push_bit 8 (ucast a) OR ucast b) [] = [a, b]"
  by (simp only: setUint16_def uint16_hi uint16_lo append_Nil)

lemma byte_char_byte: "of_char (char_of (unat (b::byte))) = b"
proof -
  have "(of_char (char_of (unat b)) :: byte) = of_nat (of_char (char_of (unat b)))"
    by (simp only: of_nat_of_char)
  also have "\<dots> = of_nat (unat b mod 256)" by (simp only: of_char_of)
  also have "\<dots> = b"
  proof -
    have "unat b < 2 ^ LENGTH(8)" by (rule unsigned_less)
    then show ?thesis by simp
  qed
  finally show ?thesis .
qed

lemma string_bytes_bytes_string: "string_bytes (bytes_string bs) = bs"
  by (simp add: string_bytes_def bytes_string_def byte_char_byte o_def)

lemma getUint8_eq:
  "getUint8 r pr = (if pr < 1 \<or> r = [] then Panic (RaisedError TruncatedStreamError)
                    else Ok (hd r, tl r, pr - 1))"
  by (cases r) (auto simp: getUint8_def ReadFull_def)

lemma getUint16_spec:
  "getUint16 r pr = Panic (RaisedError TruncatedStreamError) \<or>
   (\<exists>v r'. getUint16 r pr = Ok (v, r', pr - 2) \<and> r = setUint16 v [] @ r' \<and> 2 \<le> pr)"
proof (cases "pr < 2 \<or> length r < 2")
  case True
  then show ?thesis by (auto simp: getUint16_def ReadFull_def)
next
  case False
  then obtain a b r' where r: "r = a # b # r'"
    by (cases r; cases "tl r") auto
  show ?thesis using False
    by (simp add: r getUint16_def ReadFull_def setUint16_of_octets)
qed

lemma getString_spec:
  "getString r pr = Panic (RaisedError TruncatedStreamError) \<or>
   (\<exists>s r'. getString r pr = Ok (s, r', pr - 2 - int (length s)) \<and> r = setString s [] @ r'
        \<and> 2 + int (length s) \<le> pr \<and> length s < 65536)"
proof -
  from getUint16_spec [of r pr] show ?thesis
  proof
    assume "getUint16 r pr = Panic (RaisedError TruncatedStreamError)"
    then show ?thesis by (simp add: getString_def)
  next
    assume "\<exists>v r'. getUint16 r pr = Ok (v, r', pr - 2) \<and> r = setUint16 v [] @ r' \<and> 2 \<le> pr"
    then obtain v r1 where g: "getUint16 r pr = Ok (v, r1, pr - 2)"
      and r: "r = setUint16 v [] @ r1" and p: "2 \<le> pr" by blast
    show ?thesis
    proof (cases "pr - 2 < int (unat v) \<or> length r1 < unat v")
      case True
      then show ?thesis using g by (auto simp: getString_def ReadFull_def Let_def simp del: of_nat_unat)
    next
      case False
      let ?s = "bytes_string (take (unat v) r1)"
      have len: "length ?s = unat v" using False by (simp add: bytes_string_def)
      have "getString r pr = Ok (?s, drop (unat v) r1, pr - 2 - int (length ?s))"
        using g False by (simp add: getString_def ReadFull_def Let_def len del: of_nat_unat)
      moreover have "r = setString ?s [] @ drop (unat v) r1"
        using r by (simp add: setString_def len string_bytes_bytes_string setUint16_def)
      moreover have "2 + int (length ?s) \<le> pr" using False len by simp
      moreover have "length ?s < 65536"
      proof -
        have "unat v < 2 ^ LENGTH(16)" by (rule unsigned_less)
        then show ?thesis using len by simp
      qed
      ultimately show ?thesis by blast
    qed
  qed
qed

section \<open>The loop of \<open>SubAck.Decode\<close>\<close>

lemma SubAck_Decode_loop_Ok:
  "SubAck_Decode_loop r pr qs = Ok (qs', r') \<Longrightarrow>
   qs' = qs @ map (\<lambda>b. b AND 0x03) (take (nat pr) r) \<and> r' = drop (nat pr) r"
proof (induction r pr qs rule: SubAck_Decode_loop.induct)
  case (1 r pr topicsQos)
  show ?case
  proof (cases "pr > 0")
    case False
    then show ?thesis using "1.prems" by (simp add: SubAck_Decode_loop.simps [of r pr])
  next
    case True
    then have ne: "r \<noteq> []" using "1.prems"
      by (auto simp: SubAck_Decode_loop.simps [of r pr] getUint8_eq)
    then obtain b r1 where r: "r = b # r1" by (cases r) auto
    have g: "getUint8 r pr = Ok (b, r1, pr - 1)" using True r by (simp add: getUint8_eq)
    have step: "SubAck_Decode_loop r1 (pr - 1) (topicsQos @ [b AND 0x03]) = Ok (qs', r')"
      using "1.prems" True g by (simp add: SubAck_Decode_loop.simps [of r pr])
    have n: "nat pr = Suc (nat (pr - 1))" using True by simp
    from "1.IH" [OF True g refl refl refl step]
    show ?thesis unfolding n r by simp
  qed
qed

lemma byte_and_3_le: "(b::byte) AND 0x03 \<le> 3"
  by (rule word_and_le1)

section \<open>Decoding: the claims\<close>

text \<open>
  C5. The claim: every public Decode method either succeeds or returns an error, no
  fault of a read escapes it, and a Publish whose remaining length is larger than the
  octets the source holds returns \<open>TruncatedStreamError\<close>. The code: decoding a Publish
  from the source \<open>00 05 41\<close> with remaining length 10 reads the topic length 5, finds one
  octet, and the fault raised by \<open>getString\<close> leaves \<open>Publish.Decode\<close> as a panic. So
  does the fault of \<open>decodeLength\<close> in \<open>Header.Decode\<close> on the source \<open>30 80\<close>, and the
  fault of \<open>getUint8\<close> in \<open>ConnAck.Decode\<close> on a budget of 1.
\<close>

theorem Decode_fault_escapes:
  "is_Panic (Publish_Decode Publish_zero [0x00, 0x05, 0x41] Header_zero 10) \<and>
   is_Panic (Header_Decode [0x30, 0x80]) \<and>
   is_Panic (ConnAck_Decode ConnAck_zero [0x00] Header_zero 1)"
  by (simp add: Publish_Decode_def Header_Decode_def ConnAck_Decode_def decodeLength_def
      getString_def getUint16_def getUint8_def ReadFull_def Let_def)

text \<open>
  C6. Decoding a ConnAck whose return-code octet is above 5 (6, for example) returns
  \<open>BadReturnCodeError\<close>; with a return-code octet from 0 to 5 it succeeds, and whatever
  the budget is it does not return \<open>BadReturnCodeError\<close>.
\<close>

theorem ConnAck_Decode_ReturnCode:
  "(2 \<le> pr \<longrightarrow>
      ConnAck_Decode msg (reserved # rc # r) hdr pr =
        (if rc \<le> 5 then Ok (msg\<lparr>ReturnCode := rc\<rparr>, r) else Err BadReturnCodeError)) \<and>
   (rc \<le> 5 \<longrightarrow> ConnAck_Decode msg (reserved # rc # r) hdr pr \<noteq> Err BadReturnCodeError)"
  by (auto simp: ConnAck_Decode_def getUint8_eq ReturnCode_IsValid_def)

theorem ConnAck_Decode_ReturnCode_witness:
  "(2::int) \<le> 2 \<and>
   ConnAck_Decode ConnAck_zero [0x00, 0x06] Header_zero 2 = Err BadReturnCodeError \<and>
   (5::byte) \<le> 5 \<and>
   ConnAck_Decode ConnAck_zero [0x00, 0x05] Header_zero 2
     = Ok (ConnAck_zero\<lparr>ReturnCode := 5\<rparr>, []) \<and>
   ConnAck_Decode ConnAck_zero [0x00, 0x05] Header_zero 2 \<noteq> Err BadReturnCodeError"
  using ConnAck_Decode_ReturnCode [of 2 ConnAck_zero 0 6 "[]" Header_zero]
    ConnAck_Decode_ReturnCode [of 2 ConnAck_zero 0 5 "[]" Header_zero]
  by simp

text \<open>\<open>Publish.Decode\<close> does not look at the header it is given.\<close>

lemma Publish_Decode_hdr_unused:
  "Publish_Decode msg r hdr L = Publish_Decode msg r hdr' L"
  by (simp add: Publish_Decode_def)

text \<open>
  C7. The claim: when a Publish decode with budget \<open>L\<close> succeeds, \<open>Data\<close> holds \<open>L\<close>
  octets less the topic-name field and, when the QoS level has an id, less the 2 octets
  of the message identifier. The code: a packet with QoS level 1 in its header, topic
  "A", identifier 7 and the one payload octet \<open>01\<close>, decoded with budget 6 into a new
  Publish value, succeeds with the identifier 0 and the three octets \<open>00 07 01\<close> in
  \<open>Data\<close>: \<open>Publish.Decode\<close> asks the QoS level of the value it fills, not of \<open>hdr\<close>.
\<close>

theorem Publish_Decode_id_in_Data:
  "QosLevel_HasId (QosLevel (Header_zero\<lparr>QosLevel := 1\<rparr>)) \<and>
   Publish_Decode Publish_zero [0x00, 0x01, 0x41, 0x00, 0x07, 0x01]
       (Header_zero\<lparr>QosLevel := 1\<rparr>) 6
     = Ok (Publish_zero\<lparr>TopicName := ''A'', Data := [0x00, 0x07, 0x01]\<rparr>, [])"
proof -
  have A: "char_of (65::nat) = CHR ''A''" by code_simp
  show ?thesis
    by (simp add: Publish_Decode_def Publish_zero_def Header_zero_def QosLevel_HasId_def
        getString_def getUint16_def ReadFull_def bytes_string_def Let_def A)
qed

text \<open>
  C9. Every element of the \<open>TopicsQos\<close> of a successful SubAck decode is in the range 0
  to 3: it is the low 2 bits of the granted-QoS octet it was read from.
\<close>

theorem SubAck_Decode_TopicsQos:
  "SubAck_Decode msg r hdr pr = Ok (msg', r') \<Longrightarrow>
   (\<forall>q \<in> set (SubAck.TopicsQos msg'). q \<le> 3) \<and>
   SubAck.TopicsQos msg' = map (\<lambda>b. b AND 0x03) (take (nat (pr - 2)) (drop 2 r))"
proof -
  assume a: "SubAck_Decode msg r hdr pr = Ok (msg', r')"
  consider (fail) "getUint16 r pr = Panic (RaisedError TruncatedStreamError)"
    | (ok) v r1 where "getUint16 r pr = Ok (v, r1, pr - 2)" "r = setUint16 v [] @ r1"
    using getUint16_spec [of r pr] by blast
  then show ?thesis
  proof cases
    case fail
    then show ?thesis using a by (simp add: SubAck_Decode_def)
  next
    case ok
    have r1: "r1 = drop 2 r" using ok(2) by (simp add: setUint16_def)
    show ?thesis
    proof (cases "SubAck_Decode_loop r1 (pr - 2) []")
      case (Ok x)
      obtain qs r2 where x: "x = (qs, r2)" by (cases x)
      have "SubAck.TopicsQos msg' = qs" using a ok Ok x by (auto simp: SubAck_Decode_def)
      moreover have "qs = map (\<lambda>b. b AND 0x03) (take (nat (pr - 2)) r1)"
        using SubAck_Decode_loop_Ok [of r1 "pr - 2" "[]" qs r2] Ok x by simp
      ultimately show ?thesis using r1 by (auto simp: byte_and_3_le)
    next
      case (Err e)
      then show ?thesis using a ok by (simp add: SubAck_Decode_def)
    next
      case (Panic p)
      then show ?thesis using a ok by (simp add: SubAck_Decode_def)
    qed
  qed
qed

theorem SubAck_Decode_TopicsQos_witness:
  "SubAck_Decode SubAck_zero [0x00, 0x01, 0x01, 0xFE, 0x07] Header_zero 5
     = Ok (SubAck_zero\<lparr>SubAck.MessageId := 1, SubAck.TopicsQos := [1, 2, 3]\<rparr>, []) \<and>
   list_all (\<lambda>q. q \<le> 3) [1, 2, 3 :: byte] \<and>
   [1, 2, 3 :: byte] = map (\<lambda>b. b AND 0x03) [0x01, 0xFE, 0x07]"
proof -
  have d: "SubAck_Decode SubAck_zero [0x00, 0x01, 0x01, 0xFE, 0x07] Header_zero 5
     = Ok (SubAck_zero\<lparr>SubAck.MessageId := 1, SubAck.TopicsQos := [1, 2, 3]\<rparr>, [])"
    by (simp add: SubAck_Decode_def SubAck_zero_def getUint16_def getUint8_def ReadFull_def
        SubAck_Decode_loop.simps)
  from SubAck_Decode_TopicsQos [OF d] show ?thesis using d by simp
qed

section \<open>Encoding: the claims\<close>

lemma MsgConnect_valid: "MessageType_IsValid MsgConnect"
  by (simp add: MessageType_IsValid_def MsgConnect_def msgTypeFirstInvalid_def)

lemma Header_Encode_invalid:
  "\<not> QosLevel_IsValid (QosLevel hdr) \<Longrightarrow> Header_Encode hdr w mt n = (w, Err BadQosError)"
  by (simp add: Header_Encode_def)

lemma Header_Encode_valid:
  "QosLevel_IsValid (QosLevel hdr) \<Longrightarrow> MessageType_IsValid mt \<Longrightarrow>
   snd (Header_Encode hdr w mt n) = Ok () \<or> snd (Header_Encode hdr w mt n) = Err IOError"
  by (simp add: Header_Encode_def Write_def Let_def)

lemma writeMessage_invalid:
  "\<not> QosLevel_IsValid (QosLevel hdr) \<Longrightarrow> writeMessage w hdr buf = (w, Err BadQosError)"
  by (simp add: writeMessage_def Header_Encode_invalid)

lemma writeMessage_valid:
  assumes "QosLevel_IsValid (QosLevel hdr)"
  shows "snd (writeMessage w hdr buf) = Ok () \<or> snd (writeMessage w hdr buf) = Err IOError"
proof -
  obtain w1 res where h: "Header_Encode hdr w MsgConnect (int32 (length buf)) = (w1, res)"
    by (cases "Header_Encode hdr w MsgConnect (int32 (length buf))")
  have "res = Ok () \<or> res = Err IOError"
    using Header_Encode_valid [OF assms MsgConnect_valid, of w "int32 (length buf)"] h by simp
  then show ?thesis using h by (auto simp: writeMessage_def Write_def)
qed

text \<open>
  The ways \<open>writeMessage\<close> ends: with an invalid QoS level it returns \<open>BadQosError\<close> and
  leaves the sink as it was; otherwise it succeeds or returns the error of the sink.
\<close>

lemma writeMessage_cases:
  "writeMessage w hdr buf = (w, Err BadQosError) \<and> \<not> QosLevel_IsValid (QosLevel hdr) \<or>
   snd (writeMessage w hdr buf) = Ok () \<and> QosLevel_IsValid (QosLevel hdr) \<or>
   snd (writeMessage w hdr buf) = Err IOError \<and> QosLevel_IsValid (QosLevel hdr)"
  using writeMessage_invalid [of hdr w buf] writeMessage_valid [of hdr w buf] by blast

lemma HeaderOnly_Encode_cases:
  assumes "MessageType_IsValid mt"
  shows "HeaderOnly_Encode mt hdr w = (w, Err BadQosError) \<and> \<not> QosLevel_IsValid (QosLevel hdr) \<or>
   snd (HeaderOnly_Encode mt hdr w) = Ok () \<and> QosLevel_IsValid (QosLevel hdr) \<or>
   snd (HeaderOnly_Encode mt hdr w) = Err IOError \<and> QosLevel_IsValid (QosLevel hdr)"
  using Header_Encode_invalid [of hdr w mt 0] Header_Encode_valid [OF _ assms, of hdr w 0]
  unfolding HeaderOnly_Encode_def by blast

lemma Subscribe_Encode_loop_Ok:
  "length (Subscribe.Topics msg) \<le> length (Subscribe.TopicsQos msg) \<Longrightarrow>
   \<exists>b. Subscribe_Encode_loop msg i buf = Ok b"
proof (induction msg i buf rule: Subscribe_Encode_loop.induct)
  case (1 msg i buf)
  show ?case
    apply (subst Subscribe_Encode_loop.simps)
    using 1 by (auto simp: Let_def)
qed

lemma Subscribe_Encode_loop_Panic:
  "length (Subscribe.TopicsQos msg) < length (Subscribe.Topics msg) \<Longrightarrow>
   i \<le> length (Subscribe.TopicsQos msg) \<Longrightarrow>
   Subscribe_Encode_loop msg i buf = Panic IndexOutOfRange"
proof (induction msg i buf rule: Subscribe_Encode_loop.induct)
  case (1 msg i buf)
  show ?case
    apply (subst Subscribe_Encode_loop.simps)
    using 1 by (auto simp: Let_def)
qed

lemma Subscribe_Encode_Panic:
  "length (Subscribe.TopicsQos msg) < length (Subscribe.Topics msg) \<Longrightarrow>
   Subscribe_Encode msg w = (w, Panic IndexOutOfRange)"
  by (simp add: Subscribe_Encode_def Let_def Subscribe_Encode_loop_Panic)

lemma Subscribe_Encode_cases:
  assumes "length (Subscribe.Topics msg) \<le> length (Subscribe.TopicsQos msg)"
  shows "Subscribe_Encode msg w = (w, Err BadQosError) \<and>
           \<not> QosLevel_IsValid (QosLevel (Subscribe.Header msg)) \<or>
         snd (Subscribe_Encode msg w) = Ok () \<and> QosLevel_IsValid (QosLevel (Subscribe.Header msg)) \<or>
         snd (Subscribe_Encode msg w) = Err IOError \<and>
           QosLevel_IsValid (QosLevel (Subscribe.Header msg))"
proof -
  let ?buf = "if QosLevel_HasId (QosLevel (Subscribe.Header msg))
              then setUint16 (Subscribe.MessageId msg) [] else []"
  obtain b where b: "Subscribe_Encode_loop msg 0 ?buf = Ok b"
    using Subscribe_Encode_loop_Ok [OF assms] by blast
  then show ?thesis using writeMessage_cases [of w "Subscribe.Header msg" b]
    by (simp add: Subscribe_Encode_def Let_def)
qed

lemma three_invalid: "\<not> QosLevel_IsValid 3"
  by (simp add: QosLevel_IsValid_def)

text \<open>The ways the Encode of a message ends.\<close>

lemma Message_Encode_cases:
  "Message_Encode m w = (w, Err BadQosError) \<and>
     \<not> QosLevel_IsValid (QosLevel (Message_Header m)) \<and> will_qos_valid m \<and> topics_have_qos m \<or>
   Message_Encode m w = (w, Err BadWillQosError) \<and> \<not> will_qos_valid m \<or>
   Message_Encode m w = (w, Panic IndexOutOfRange) \<and> \<not> topics_have_qos m \<or>
   snd (Message_Encode m w) = Ok () \<and> QosLevel_IsValid (QosLevel (Message_Header m)) \<or>
   snd (Message_Encode m w) = Err IOError \<and> QosLevel_IsValid (QosLevel (Message_Header m))"
proof (cases m)
  case (Connect_msg x)
  then show ?thesis
    using writeMessage_cases [of w "Connect.Header x"]
    by (simp add: Connect_Encode_def Let_def)
next
  case (ConnAck_msg x)
  then show ?thesis using writeMessage_cases [of w "ConnAck.Header x"]
    by (simp add: ConnAck_Encode_def Let_def)
next
  case (Publish_msg x)
  then show ?thesis using writeMessage_cases [of w "Publish.Header x"]
    by (simp add: Publish_Encode_def Let_def)
next
  case (PubAck_msg x)
  then show ?thesis using writeMessage_cases [of w "AckCommon.Header x"]
    by (simp add: AckCommon_Encode_def Let_def)
next
  case (PubRec_msg x)
  then show ?thesis using writeMessage_cases [of w "AckCommon.Header x"]
    by (simp add: AckCommon_Encode_def Let_def)
next
  case (PubRel_msg x)
  then show ?thesis using writeMessage_cases [of w "AckCommon.Header x"]
    by (simp add: AckCommon_Encode_def Let_def)
next
  case (PubComp_msg x)
  then show ?thesis using writeMessage_cases [of w "AckCommon.Header x"]
    by (simp add: AckCommon_Encode_def Let_def)
next
  case (Subscribe_msg x)
  show ?thesis
  proof (cases "length (Subscribe.Topics x) \<le> length (Subscribe.TopicsQos x)")
    case True
    from Subscribe_Encode_cases [OF this, of w] show ?thesis using Subscribe_msg True by simp
  next
    case False
    then show ?thesis using Subscribe_msg by (simp add: Subscribe_Encode_Panic)
  qed
next
  case (SubAck_msg x)
  then show ?thesis using writeMessage_cases [of w "SubAck.Header x"]
    by (simp add: SubAck_Encode_def Let_def)
next
  case (Unsubscribe_msg x)
  then show ?thesis using writeMessage_cases [of w "Unsubscribe.Header x"]
    by (simp add: Unsubscribe_Encode_def Let_def)
next
  case (UnsubAck_msg x)
  then show ?thesis using writeMessage_cases [of w "AckCommon.Header x"]
    by (simp add: AckCommon_Encode_def Let_def)
next
  case (PingReq_msg x)
  have "MessageType_IsValid MsgPingReq"
    by (simp add: MessageType_IsValid_def MsgPingReq_def MsgConnect_def msgTypeFirstInvalid_def)
  from HeaderOnly_Encode_cases [OF this, of x w] show ?thesis using PingReq_msg by simp
next
  case (PingResp_msg x)
  have "MessageType_IsValid MsgPingResp"
    by (simp add: MessageType_IsValid_def MsgPingResp_def MsgConnect_def msgTypeFirstInvalid_def)
  from HeaderOnly_Encode_cases [OF this, of x w] show ?thesis using PingResp_msg by simp
next
  case (Disconnect_msg x)
  have "MessageType_IsValid MsgDisconnect"
    by (simp add: MessageType_IsValid_def MsgDisconnect_def MsgConnect_def msgTypeFirstInvalid_def)
  from HeaderOnly_Encode_cases [OF this, of x w] show ?thesis using Disconnect_msg by simp
qed

text \<open>The test message: the layout in octets, and the payload handed to \<open>writeMessage\<close>.\<close>

lemma Test_layout_49:
  "Test_layout 49 =
     [0x10, 0x31, 0x00, 0x06, 0x4D, 0x51, 0x49, 0x73, 0x64, 0x70, 0x03, 0xCE, 0x00, 0x0A,
      0x00, 0x08, 0x78, 0x69, 0x78, 0x69, 0x68, 0x61, 0x68, 0x61,
      0x00, 0x05, 0x74, 0x6F, 0x70, 0x69, 0x63,
      0x00, 0x07, 0x6D, 0x65, 0x73, 0x73, 0x61, 0x67, 0x65,
      0x00, 0x04, 0x6E, 0x61, 0x6D, 0x65,
      0x00, 0x03, 0x70, 0x77, 0x64]"
  by (simp add: Test_layout_def encodeLength_def setString_def setUint16_def string_bytes_def)

lemma Test_layout_39:
  "Test_layout 39 =
     [0x10, 0x27, 0x00, 0x06, 0x4D, 0x51, 0x49, 0x73, 0x64, 0x70, 0x03, 0xCE, 0x00, 0x0A,
      0x00, 0x08, 0x78, 0x69, 0x78, 0x69, 0x68, 0x61, 0x68, 0x61,
      0x00, 0x05, 0x74, 0x6F, 0x70, 0x69, 0x63,
      0x00, 0x07, 0x6D, 0x65, 0x73, 0x73, 0x61, 0x67, 0x65,
      0x00, 0x04, 0x6E, 0x61, 0x6D, 0x65,
      0x00, 0x03, 0x70, 0x77, 0x64]"
  by (simp add: Test_layout_def encodeLength_def setString_def setUint16_def string_bytes_def)

lemma Test_payload:
  "Connect_Encode Test_msg w = writeMessage w Header_zero (drop 2 (Test_layout 49))"
  by (simp add: Test_layout_49 Connect_Encode_def Test_msg_def QosLevel_IsValid_def
      boolToByte_def setString_def setUint16_def setUint8_def string_bytes_def Let_def)

lemma ConnAck_Encode_zero:
  "ConnAck_Encode ConnAck_zero \<lparr>written = [], room = 4\<rparr> =
     (\<lparr>written = [0x10, 0x02, 0x00, 0x00], room = 0\<rparr>, Ok ())"
  by (simp add: ConnAck_Encode_def ConnAck_zero_def writeMessage_def Header_Encode_def
     Header_zero_def QosLevel_IsValid_def MessageType_IsValid_def MsgConnect_def
     msgTypeFirstInvalid_def boolToByte_def int32_def encodeLength_def Write_def Let_def
     setUint8_def)

text \<open>
  C1. The claim: for every message kind and every Encode that succeeds, the high nibble
  of the first octet written is the message's own MessageType, and the low nibble packs
  the dup flag, the QoS level and the retain flag. The code: the ConnAck with zero fields,
  encoded into an empty sink, succeeds and writes \<open>10 02 00 00\<close>. The high nibble of the
  first octet is 1, which is \<open>MsgConnect\<close>, not 2, which is \<open>MsgConnAck\<close>.
\<close>

theorem ConnAck_Encode_type_nibble:
  "Message_Encode (ConnAck_msg ConnAck_zero) \<lparr>written = [], room = 4\<rparr> =
     (\<lparr>written = [0x10, 0x02, 0x00, 0x00], room = 0\<rparr>, Ok ()) \<and>
   drop_bit 4 (0x10 :: byte) = MsgConnect \<and>
   drop_bit 4 (0x10 :: byte) \<noteq> MsgConnAck"
  by (simp add: ConnAck_Encode_zero MsgConnect_def MsgConnAck_def)

text \<open>
  C2. The claim: for every valid message \<open>m\<close> of each kind, \<open>DecodeRead\<close> of the octets
  of \<open>m.Encode\<close> is \<open>m\<close>. The code: the octets of the ConnAck with zero fields are
  \<open>10 02 00 00\<close>; \<open>Header.Decode\<close> reads the message type \<open>MsgConnect\<close> and the remaining
  length 2 from them; \<open>Connect.Decode\<close> on the two octets left runs out of budget after
  the empty protocol name and ends in a fault; and \<open>DecodeRead\<close> does not give the ConnAck
  back.
\<close>

theorem DecodeRead_ConnAck_Encode:
  "Header_Decode (written (fst (Message_Encode (ConnAck_msg ConnAck_zero)
      \<lparr>written = [], room = 4\<rparr>))) = Ok (MsgConnect, 2, Header_zero, [0x00, 0x00]) \<and>
   is_Panic (Connect_Decode Connect_zero [0x00, 0x00] Header_zero 2) \<and>
   DecodeRead (written (fst (Message_Encode (ConnAck_msg ConnAck_zero)
      \<lparr>written = [], room = 4\<rparr>))) \<noteq> Ok (ConnAck_msg ConnAck_zero, [])"
  by (simp add: ConnAck_Encode_zero DecodeRead_def Header_Decode_def ReadFull_def
     decodeLength_def MessageType_IsValid_def MsgConnect_def msgTypeFirstInvalid_def
     NewMessage_def with_msg_def Connect_Decode_def Header_zero_def
     getString_def getUint16_def getUint8_def Let_def)

text \<open>
  C3, as amended. Encoding the Connect message of the test (protocol name "MQIsdp",
  version 3, username, password and will flags set, will-QoS 1, clean session, keep-alive
  10, client id "xixihaha", will topic "topic", will message "message", username "name",
  password "pwd") into a sink with room for it writes exactly the fixed header octet
  \<open>0x10\<close>, the remaining-length field of 49, the protocol-name field \<open>00 06 "MQIsdp"\<close>,
  the octets \<open>03 CE 00 0A\<close>, and the length-prefixed client id, will topic, will message,
  username and password, in that order.
\<close>

theorem Connect_Encode_Test:
  "51 \<le> room w \<Longrightarrow>
   Connect_Encode Test_msg w =
     (w\<lparr>written := written w @ Test_layout 49, room := room w - 51\<rparr>, Ok ())"
  by (simp add: Test_payload Test_layout_49 writeMessage_def Header_Encode_def Header_zero_def
     QosLevel_IsValid_def MessageType_IsValid_def MsgConnect_def msgTypeFirstInvalid_def
     boolToByte_def int32_def encodeLength_def Write_def Let_def)

theorem Connect_Encode_Test_witness:
  "(51::nat) \<le> 51 \<and>
   Connect_Encode Test_msg \<lparr>written = [], room = 51\<rparr> =
     (\<lparr>written = Test_layout 49, room = 0\<rparr>, Ok ())"
  using Connect_Encode_Test [of "\<lparr>written = [], room = 51\<rparr>"] by simp

text \<open>
  C3, as claimed, fails: the octets written for the test message are not the layout with
  the remaining-length field of 39.
\<close>

theorem Connect_Encode_Test_counterexample:
  "written (fst (Connect_Encode Test_msg \<lparr>written = [], room = 51\<rparr>)) \<noteq> Test_layout 39"
  by (simp add: Test_payload Test_layout_49 Test_layout_39 writeMessage_def Header_Encode_def
     Header_zero_def QosLevel_IsValid_def MessageType_IsValid_def MsgConnect_def
     msgTypeFirstInvalid_def boolToByte_def int32_def encodeLength_def Write_def Let_def)

text \<open>
  C4, as amended. For every message whose header QoS level is 3, whose will-QoS is valid
  if it is a Connect, and whose \<open>TopicsQos\<close> is at least as long as its \<open>Topics\<close> if it is
  a Subscribe, Encode returns \<open>BadQosError\<close> and the sink is as it was. For every
  message, when Encode returns a validation error (\<open>BadQosError\<close>, \<open>BadMsgTypeError\<close>,
  \<open>BadWillQosError\<close>), the sink is as it was.
\<close>

theorem Encode_validation_before_write:
  "(QosLevel (Message_Header m) = 3 \<and> will_qos_valid m \<and> topics_have_qos m \<longrightarrow>
      Message_Encode m w = (w, Err BadQosError)) \<and>
   (snd (Message_Encode m w) = Err BadQosError \<or>
    snd (Message_Encode m w) = Err BadMsgTypeError \<or>
    snd (Message_Encode m w) = Err BadWillQosError \<longrightarrow>
      fst (Message_Encode m w) = w)"
  using Message_Encode_cases [of m w] three_invalid by auto

theorem Encode_validation_before_write_witness:
  "QosLevel (Message_Header (Publish_msg (Publish_zero\<lparr>Publish.Header :=
      Header_zero\<lparr>QosLevel := 3\<rparr>\<rparr>))) = 3 \<and>
   Message_Encode (Publish_msg (Publish_zero\<lparr>Publish.Header := Header_zero\<lparr>QosLevel := 3\<rparr>\<rparr>))
     \<lparr>written = [], room = 100\<rparr> = (\<lparr>written = [], room = 100\<rparr>, Err BadQosError)"
  using Encode_validation_before_write
    [of "Publish_msg (Publish_zero\<lparr>Publish.Header := Header_zero\<lparr>QosLevel := 3\<rparr>\<rparr>)"
        "\<lparr>written = [], room = 100\<rparr>"]
  by simp

text \<open>
  C4, as claimed, fails: the Subscribe with header QoS level 3, one topic and no
  requested QoS does not return \<open>BadQosError\<close>; its Encode panics, out of range.
\<close>

theorem Encode_BadQos_counterexample:
  "QosLevel (Message_Header (Subscribe_msg (Subscribe_zero\<lparr>Subscribe.Header :=
      Header_zero\<lparr>QosLevel := 3\<rparr>, Subscribe.Topics := [''a'']\<rparr>))) = 3 \<and>
   Message_Encode (Subscribe_msg (Subscribe_zero\<lparr>Subscribe.Header :=
      Header_zero\<lparr>QosLevel := 3\<rparr>, Subscribe.Topics := [''a'']\<rparr>)) \<lparr>written = [], room = 100\<rparr>
     = (\<lparr>written = [], room = 100\<rparr>, Panic IndexOutOfRange)"
  by (simp add: Subscribe_Encode_Panic Subscribe_zero_def)

text \<open>
  C10. \<open>Subscribe.Encode\<close> reads \<open>TopicsQos\<close> at every index of \<open>Topics\<close> and checks
  no length: when \<open>TopicsQos\<close> is at least as long as \<open>Topics\<close>, encoding raises no fault;
  when \<open>Topics\<close> is longer, and there is such a value, encoding raises the out-of-range
  fault, and returns no error.
\<close>

theorem Subscribe_Encode_index:
  "(length (Subscribe.Topics msg) \<le> length (Subscribe.TopicsQos msg) \<longrightarrow>
      \<not> is_Panic (snd (Subscribe_Encode msg w))) \<and>
   (length (Subscribe.TopicsQos msg) < length (Subscribe.Topics msg) \<longrightarrow>
      Subscribe_Encode msg w = (w, Panic IndexOutOfRange)) \<and>
   (\<exists>m. length (Subscribe.TopicsQos m) < length (Subscribe.Topics m) \<and>
      Subscribe_Encode m w = (w, Panic IndexOutOfRange))"
proof (intro conjI impI)
  assume "length (Subscribe.Topics msg) \<le> length (Subscribe.TopicsQos msg)"
  from Subscribe_Encode_cases [OF this, of w]
  show "\<not> is_Panic (snd (Subscribe_Encode msg w))" by auto
next
  assume "length (Subscribe.TopicsQos msg) < length (Subscribe.Topics msg)"
  then show "Subscribe_Encode msg w = (w, Panic IndexOutOfRange)"
    by (rule Subscribe_Encode_Panic)
next
  let ?m = "Subscribe_zero\<lparr>Subscribe.Topics := [''a'']\<rparr>"
  have "length (Subscribe.TopicsQos ?m) < length (Subscribe.Topics ?m)"
    by (simp add: Subscribe_zero_def)
  then show "\<exists>m. length (Subscribe.TopicsQos m) < length (Subscribe.Topics m) \<and>
      Subscribe_Encode m w = (w, Panic IndexOutOfRange)"
    using Subscribe_Encode_Panic by blast
qed

theorem Subscribe_Encode_index_witness:
  "length (Subscribe.Topics (Subscribe_zero\<lparr>Subscribe.Topics := [''a''],
      Subscribe.TopicsQos := [1]\<rparr>))
     \<le> length (Subscribe.TopicsQos (Subscribe_zero\<lparr>Subscribe.Topics := [''a''],
      Subscribe.TopicsQos := [1]\<rparr>)) \<and>
   \<not> is_Panic (snd (Subscribe_Encode (Subscribe_zero\<lparr>Subscribe.Topics := [''a''],
      Subscribe.TopicsQos := [1]\<rparr>) \<lparr>written = [], room = 100\<rparr>)) \<and>
   length (Subscribe.TopicsQos (Subscribe_zero\<lparr>Subscribe.Topics := [''a'']\<rparr>))
     < length (Subscribe.Topics (Subscribe_zero\<lparr>Subscribe.Topics := [''a'']\<rparr>)) \<and>
   Subscribe_Encode (Subscribe_zero\<lparr>Subscribe.Topics := [''a'']\<rparr>) \<lparr>written = [], room = 100\<rparr>
     = (\<lparr>written = [], room = 100\<rparr>, Panic IndexOutOfRange)"
  using Subscribe_Encode_index [of "Subscribe_zero\<lparr>Subscribe.Topics := [''a''],
      Subscribe.TopicsQos := [1]\<rparr>" "\<lparr>written = [], room = 100\<rparr>"]
    Subscribe_Encode_index [of "Subscribe_zero\<lparr>Subscribe.Topics := [''a'']\<rparr>"
      "\<lparr>written = [], room = 100\<rparr>"]
  by (simp add: Subscribe_zero_def)

section \<open>The tests of \<open>mqtt_test.go\<close>, on the model\<close>

text \<open>The table of \<open>TestDecodeLength\<close>.\<close>

lemma decodeLength_table:
  "decodeLength [0x00] = Ok (0, [])"
  "decodeLength [0x7F] = Ok (127, [])"
  "decodeLength [0x80, 0x01] = Ok (128, [])"
  "decodeLength [0xFF, 0x7F] = Ok (16383, [])"
  "decodeLength [0x80, 0x80, 0x01] = Ok (16384, [])"
  "decodeLength [0xFF, 0xFF, 0x7F] = Ok (2097151, [])"
  "decodeLength [0x80, 0x80, 0x80, 0x01] = Ok (2097152, [])"
  "decodeLength [0xFF, 0xFF, 0xFF, 0x7F] = Ok (268435455, [])"
  by (simp_all add: decodeLength_def)

text \<open>The second half of \<open>Test\<close>: the expected octets decode to the test message.\<close>

lemma DecodeRead_Test: "DecodeRead (Test_layout 49) = Ok (Connect_msg Test_msg, [])"
  by code_simp

end
